theory Spec2Isabelle
  imports Complex_Main
begin

section \<open>Python values\<close>

text \<open>
  A Python \<^verbatim>\<open>str\<close> is a sequence of Unicode code points; it is modelled as the list of
  its code points, so that slicing, \<^verbatim>\<open>in\<close> and \<^verbatim>\<open>strip\<close> count what Python counts.
  Literals of \<^verbatim>\<open>server.py\<close> that are plain ASCII are written with \<open>asc\<close>; the Korean ones are
  given by their code points, with the line of the source and a gloss.
\<close>

type_synonym pystr = "nat list"

definition asc :: "string \<Rightarrow> pystr" where
  "asc s = map of_char s"

text \<open>\<^verbatim>\<open>str(n)\<close> and the \<^verbatim>\<open>{n}\<close> of an f-string, for an integer.\<close>

fun str_nat :: "nat \<Rightarrow> pystr" where
  "str_nat n = (if n < 10 then [48 + n] else str_nat (n div 10) @ [48 + n mod 10])"

declare str_nat.simps [simp del]

definition str_int :: "int \<Rightarrow> pystr" where
  "str_int i = (if i < 0 then 45 # str_nat (nat (- i)) else str_nat (nat i))"

text \<open>
  \<^verbatim>\<open>str.strip()\<close> removes the leading and trailing white space, which for a \<^verbatim>\<open>str\<close> is
  the code points that \<^verbatim>\<open>str.isspace\<close> accepts.
\<close>

definition py_isspace :: "nat \<Rightarrow> bool" where
  "py_isspace c \<longleftrightarrow>
     (0x09 \<le> c \<and> c \<le> 0x0D) \<or> (0x1C \<le> c \<and> c \<le> 0x20) \<or> c = 0x85 \<or> c = 0xA0 \<or>
     c = 0x1680 \<or> (0x2000 \<le> c \<and> c \<le> 0x200A) \<or> c = 0x2028 \<or> c = 0x2029 \<or>
     c = 0x202F \<or> c = 0x205F \<or> c = 0x3000"

definition py_strip :: "pystr \<Rightarrow> pystr" where
  "py_strip s = rev (dropWhile py_isspace (rev (dropWhile py_isspace s)))"

text \<open>\<^verbatim>\<open>sub in s\<close> on strings: \<open>sub\<close> occurs in \<open>s\<close> as a contiguous run.\<close>

fun py_in :: "pystr \<Rightarrow> pystr \<Rightarrow> bool" where
  "py_in sub [] \<longleftrightarrow> sub = []"
| "py_in sub (c # s) \<longleftrightarrow> take (length sub) (c # s) = sub \<or> py_in sub s"

text \<open>\<^verbatim>\<open>sep.join(parts)\<close>.\<close>

fun py_join :: "pystr \<Rightarrow> pystr list \<Rightarrow> pystr" where
  "py_join sep [] = []"
| "py_join sep [p] = p"
| "py_join sep (p # q # ps) = p @ sep @ py_join sep (q # ps)"

text \<open>
  Slices. A negative bound counts from the end, and every bound is clipped to the
  list, so a slice never raises: \<^verbatim>\<open>xs[a:b]\<close> and \<^verbatim>\<open>xs[a:]\<close>.
\<close>

definition py_bound :: "nat \<Rightarrow> int \<Rightarrow> nat" where
  "py_bound n a = (if a < 0 then nat (max (a + int n) 0) else min (nat a) n)"

definition py_slice :: "'a list \<Rightarrow> int \<Rightarrow> int \<Rightarrow> 'a list" where
  "py_slice xs a b =
     (let lo = py_bound (length xs) a; hi = py_bound (length xs) b
      in take (hi - lo) (drop lo xs))"

definition py_slice_from :: "'a list \<Rightarrow> int \<Rightarrow> 'a list" where
  "py_slice_from xs a = drop (py_bound (length xs) a) xs"

text \<open>
  Exceptions, all of them subclasses of \<^verbatim>\<open>Exception\<close>. \<open>IndexError\<close> is raised by an
  index out of range; \<open>ValueError\<close> by \<^verbatim>\<open>int()\<close>, with the text Python gives it;
  \<open>PlaywrightTimeout\<close> and \<open>Fault\<close> come from the libraries (the browser, the sheet
  client), each with its text.
\<close>

datatype exn = IndexError | ValueError pystr | PlaywrightTimeout pystr | Fault pystr

fun str_exn :: "exn \<Rightarrow> pystr" where
  "str_exn IndexError = asc ''list index out of range''"
| "str_exn (ValueError m) = m"
| "str_exn (PlaywrightTimeout m) = m"
| "str_exn (Fault m) = m"

section \<open>The literals of server.py\<close>

definition LV_INFO :: pystr where \<comment> \<open>line 171: level tag\<close>
  "LV_INFO = asc ''info''"

definition LV_WARN :: pystr where \<comment> \<open>line 381: level tag\<close>
  "LV_WARN = asc ''warn''"

definition LV_ERROR :: pystr where \<comment> \<open>line 507: level tag\<close>
  "LV_ERROR = asc ''error''"

definition LV_SUCCESS :: pystr where \<comment> \<open>line 513: level tag\<close>
  "LV_SUCCESS = asc ''success''"

definition EV_LOG :: pystr where \<comment> \<open>line 182: event name\<close>
  "EV_LOG = asc ''log''"

definition EV_STATE :: pystr where \<comment> \<open>line 420: event name\<close>
  "EV_STATE = asc ''state''"

definition EV_PROGRESS :: pystr where \<comment> \<open>line 467: event name\<close>
  "EV_PROGRESS = asc ''progress''"

definition EV_COMPLETE :: pystr where \<comment> \<open>line 546: event name\<close>
  "EV_COMPLETE = asc ''complete''"

definition K_TIMEOUT :: pystr where \<comment> \<open>line 187: config key: element detection timeout (seconds)\<close>
  "K_TIMEOUT = [0xC694, 0xC18C, 0x20, 0xD0D0, 0xC9C0, 0x20, 0xD0C0, 0xC784, 0xC544, 0xC6C3, 0x28,
     0xCD08, 0x29]"

definition K_CHATBOT_URL :: pystr where \<comment> \<open>line 188: config key: chatbot URL\<close>
  "K_CHATBOT_URL = [0xCC57, 0xBD07, 0x20, 0x55, 0x52, 0x4C]"

definition D_CHATBOT_URL :: pystr where \<comment> \<open>line 188: default chatbot URL\<close>
  "D_CHATBOT_URL = asc ''https://buly.kr/BpEMAeD''"

definition K_REASON_CATEGORY :: pystr where \<comment> \<open>line 189: config key: reason category\<close>
  "K_REASON_CATEGORY = [0xC0AC, 0xC720, 0x20, 0xCE74, 0xD14C, 0xACE0, 0xB9AC]"

definition D_REASON_CATEGORY :: pystr where \<comment> \<open>line 189: default reason category: 'other'\<close>
  "D_REASON_CATEGORY = [0xAE30, 0xD0C0]"

definition K_DELETE_COMMENT :: pystr where \<comment> \<open>line 190: config key: consent to comment deletion\<close>
  "K_DELETE_COMMENT = [0xB313, 0xAE00, 0x20, 0xC0AD, 0xC81C, 0x20, 0xB3D9, 0xC758]"

definition D_DELETE_COMMENT :: pystr where \<comment> \<open>line 190: default consent text: 'yes'\<close>
  "D_DELETE_COMMENT = [0xB124]"

definition K_DEFAULT_REASON :: pystr where \<comment> \<open>line 305: config key: default reason\<close>
  "K_DEFAULT_REASON = [0xAE30, 0xBCF8, 0x20, 0xC0AC, 0xC720]"

definition D_DEFAULT_REASON :: pystr where \<comment> \<open>line 305: default reason text\<close>
  "D_DEFAULT_REASON = [0xB9AC, 0xBDF0, 0x20, 0xBE14, 0xB77C, 0xC778, 0xB4DC, 0x2F, 0xAC8C,
     0xC2DC, 0xC911, 0xB2E8, 0x20, 0xC694, 0xCCAD, 0xD569, 0xB2C8, 0xB2E4, 0x2E]"

definition K_DELAY :: pystr where \<comment> \<open>line 435: config key: wait per record (seconds)\<close>
  "K_DELAY = [0xAC74, 0xB2F9, 0x20, 0xB300, 0xAE30, 0xC2DC, 0xAC04, 0x28, 0xCD08, 0x29]"

definition K_MAX_RETRY :: pystr where \<comment> \<open>line 436: config key: maximum number of retries\<close>
  "K_MAX_RETRY = [0xCD5C, 0xB300, 0x20, 0xC7AC, 0xC2DC, 0xB3C4, 0x20, 0xD69F, 0xC218]"

definition K_HEADLESS :: pystr where \<comment> \<open>line 437: config key: show browser\<close>
  "K_HEADLESS = [0xBE0C, 0xB77C, 0xC6B0, 0xC800, 0x20, 0xD45C, 0xC2DC]"

definition D_HEADLESS :: pystr where \<comment> \<open>line 437: default of the show-browser setting\<close>
  "D_HEADLESS = asc ''FALSE''"

definition V_TRUE :: pystr where \<comment> \<open>line 438: show-browser value\<close>
  "V_TRUE = asc ''TRUE''"

definition V_ONE :: pystr where \<comment> \<open>line 438: show-browser value\<close>
  "V_ONE = asc ''1''"

definition V_YE :: pystr where \<comment> \<open>line 438: show-browser value: 'yes'\<close>
  "V_YE = [0xC608]"

definition V_Y :: pystr where \<comment> \<open>line 438: show-browser value\<close>
  "V_Y = asc ''Y''"

definition LOG_1 :: pystr where \<comment> \<open>line 236: step 1 log: connecting to the chatbot\<close>
  "LOG_1 = [0x20, 0x20, 0x5B, 0x31, 0x2F, 0x31, 0x33, 0x5D, 0x20, 0xCC57, 0xBD07, 0x20, 0xC811,
     0xC18D, 0x20, 0xC911, 0x2E, 0x2E, 0x2E]"

definition LOG_2 :: pystr where \<comment> \<open>line 241: step 2 log\<close>
  "LOG_2 = [0x20, 0x20, 0x5B, 0x32, 0x2F, 0x31, 0x33, 0x5D, 0x20, 0x27, 0xB9AC, 0xBDF0, 0x20,
     0xBE14, 0xB77C, 0xC778, 0xB4DC, 0x2F, 0xAC8C, 0xC2DC, 0xC911, 0xB2E8, 0x20, 0xC694, 0xCCAD,
     0x27, 0x20, 0xC120, 0xD0DD]"

definition B_MAIN :: pystr where \<comment> \<open>line 242: button: review blind / takedown request\<close>
  "B_MAIN = [0xB9AC, 0xBDF0, 0x20, 0xBE14, 0xB77C, 0xC778, 0xB4DC, 0x2F, 0xAC8C, 0xC2DC, 0xC911,
     0xB2E8, 0x20, 0xC694, 0xCCAD]"

definition B_MAIN_SHORT :: pystr where \<comment> \<open>line 243: button: review blind (shorter fallback label)\<close>
  "B_MAIN_SHORT = [0xB9AC, 0xBDF0, 0x20, 0xBE14, 0xB77C, 0xC778, 0xB4DC]"

definition F_MAIN :: pystr where \<comment> \<open>line 244: failure: main menu button not found\<close>
  "F_MAIN = [0x274C, 0x20, 0xBA54, 0xC778, 0x20, 0xBA54, 0xB274, 0x20, 0xBC84, 0xD2BC, 0x20,
     0xD0D0, 0xC9C0, 0x20, 0xC2E4, 0xD328]"

definition LOG_3 :: pystr where \<comment> \<open>line 247: step 3 log: request type\<close>
  "LOG_3 = [0x20, 0x20, 0x5B, 0x33, 0x2F, 0x31, 0x33, 0x5D, 0x20, 0xC2E0, 0xCCAD, 0xC720, 0xD615,
     0x20, 0xC120, 0xD0DD]"

definition B_TYPE :: pystr where \<comment> \<open>line 254: button: the fixed request type\<close>
  "B_TYPE = [0xBE14, 0xB77C, 0xC778, 0xB4DC, 0x26, 0xAC8C, 0xC2DC, 0xC911, 0xB2E8, 0x20, 0xC911,
     0xBCF5, 0x20, 0xC2E0, 0xCCAD]"

definition F_TYPE_PRE :: pystr where \<comment> \<open>line 256: failure: request type button not found (before the label)\<close>
  "F_TYPE_PRE = [0x274C, 0x20, 0xC2E0, 0xCCAD, 0xC720, 0xD615, 0x20, 0x27]"

definition F_TYPE_SUF :: pystr where \<comment> \<open>line 256: (after the label)\<close>
  "F_TYPE_SUF = [0x27, 0x20, 0xBC84, 0xD2BC, 0x20, 0xD0D0, 0xC9C0, 0x20, 0xC2E4, 0xD328]"

definition LOG_4 :: pystr where \<comment> \<open>line 259: step 4 log\<close>
  "LOG_4 = [0x20, 0x20, 0x5B, 0x34, 0x2F, 0x31, 0x33, 0x5D, 0x20, 0x27, 0xBCF8, 0xC778, 0x20,
     0xC2E0, 0xCCAD, 0x27, 0x20, 0xC120, 0xD0DD]"

definition B_SELF :: pystr where \<comment> \<open>line 260: button: self submission\<close>
  "B_SELF = [0xBCF8, 0xC778, 0x20, 0xC2E0, 0xCCAD]"

definition F_SELF :: pystr where \<comment> \<open>line 261: failure: self-submission button not found\<close>
  "F_SELF = [0x274C, 0x20, 0x27, 0xBCF8, 0xC778, 0x20, 0xC2E0, 0xCCAD, 0x27, 0x20, 0xBC84,
     0xD2BC, 0x20, 0xD0D0, 0xC9C0, 0x20, 0xC2E4, 0xD328]"

definition LOG_5 :: pystr where \<comment> \<open>line 264: step 5 log\<close>
  "LOG_5 = [0x20, 0x20, 0x5B, 0x35, 0x2F, 0x31, 0x33, 0x5D, 0x20, 0x27, 0xAC04, 0xD3B8, 0xD558,
     0xAC8C, 0x20, 0xC811, 0xC218, 0xD558, 0xAE30, 0x27, 0x20, 0xC120, 0xD0DD]"

definition B_SIMPLE :: pystr where \<comment> \<open>line 265: button: simplified submission\<close>
  "B_SIMPLE = [0xAC04, 0xD3B8, 0xD558, 0xAC8C, 0x20, 0xC811, 0xC218, 0xD558, 0xAE30]"

definition F_SIMPLE :: pystr where \<comment> \<open>line 266: failure: simplified-submission button not found\<close>
  "F_SIMPLE = [0x274C, 0x20, 0x27, 0xAC04, 0xD3B8, 0xD558, 0xAC8C, 0x20, 0xC811, 0xC218, 0xD558,
     0xAE30, 0x27, 0x20, 0xBC84, 0xD2BC, 0x20, 0xD0D0, 0xC9C0, 0x20, 0xC2E4, 0xD328]"

definition LOG_6 :: pystr where \<comment> \<open>line 269: step 6 log\<close>
  "LOG_6 = [0x20, 0x20, 0x5B, 0x36, 0x2F, 0x31, 0x33, 0x5D, 0x20, 0x27, 0xACC4, 0xC18D, 0x20,
     0xC2E0, 0xCCAD, 0xD558, 0xAE30, 0x27, 0x20, 0xC120, 0xD0DD]"

definition B_CONTINUE :: pystr where \<comment> \<open>line 270: button: continue submission\<close>
  "B_CONTINUE = [0xACC4, 0xC18D, 0x20, 0xC2E0, 0xCCAD, 0xD558, 0xAE30]"

definition F_CONTINUE :: pystr where \<comment> \<open>line 271: failure: continue button not found\<close>
  "F_CONTINUE = [0x274C, 0x20, 0x27, 0xACC4, 0xC18D, 0x20, 0xC2E0, 0xCCAD, 0xD558, 0xAE30, 0x27,
     0x20, 0xBC84, 0xD2BC, 0x20, 0xD0D0, 0xC9C0, 0x20, 0xC2E4, 0xD328]"

definition LOG_7_PRE :: pystr where \<comment> \<open>line 274: step 7 log,
     before the store id\<close>
  "LOG_7_PRE = [0x20, 0x20, 0x5B, 0x37, 0x2F, 0x31, 0x33, 0x5D, 0x20, 0xC2A4, 0xD1A0, 0xC5B4,
     0x20, 0x49, 0x44, 0x20, 0xC785, 0xB825, 0x3A, 0x20]"

definition F_STORE_ID :: pystr where \<comment> \<open>line 276: failure: store id input failed\<close>
  "F_STORE_ID = [0x274C, 0x20, 0xC2A4, 0xD1A0, 0xC5B4, 0x20, 0x49, 0x44, 0x20, 0xC785, 0xB825,
     0x20, 0xC2E4, 0xD328]"

definition LOG_8_PRE :: pystr where \<comment> \<open>line 279: step 8 log,
     before the business number\<close>
  "LOG_8_PRE = [0x20, 0x20, 0x5B, 0x38, 0x2F, 0x31, 0x33, 0x5D, 0x20, 0xC0AC, 0xC5C5, 0xC790,
     0xBC88, 0xD638, 0x20, 0xC785, 0xB825, 0x3A, 0x20]"

definition F_BUSINESS_NO :: pystr where \<comment> \<open>line 281: failure: business number input failed\<close>
  "F_BUSINESS_NO = [0x274C, 0x20, 0xC0AC, 0xC5C5, 0xC790, 0xBC88, 0xD638, 0x20, 0xC785, 0xB825,
     0x20, 0xC2E4, 0xD328]"

definition LOG_9 :: pystr where \<comment> \<open>line 284: step 9 log: verification\<close>
  "LOG_9 = [0x20, 0x20, 0x5B, 0x39, 0x2F, 0x31, 0x33, 0x5D, 0x20, 0xC778, 0xC99D, 0x20, 0xD655,
     0xC778]"

definition B_CONFIRM :: pystr where \<comment> \<open>line 285: button: matches, continue\<close>
  "B_CONFIRM = [0xC77C, 0xCE58, 0xD558, 0xBA70, 0x20, 0xC774, 0xC5B4, 0xC11C, 0x20, 0xC9C4,
     0xD589, 0xD558, 0xAE30]"

definition P_MISMATCH :: pystr where \<comment> \<open>line 286: probe: the text 'does not match'\<close>
  "P_MISMATCH = [0x74, 0x65, 0x78, 0x74, 0x3D, 0xC77C, 0xCE58, 0xD558, 0xC9C0, 0x20, 0xC54A,
     0xC2B5, 0xB2C8, 0xB2E4]"

definition F_MISMATCH :: pystr where \<comment> \<open>line 288: failure: store id / business number mismatch\<close>
  "F_MISMATCH = [0x274C, 0x20, 0xC2A4, 0xD1A0, 0xC5B4, 0x49, 0x44, 0x2F, 0xC0AC, 0xC5C5, 0xC790,
     0xBC88, 0xD638, 0x20, 0xBD88, 0xC77C, 0xCE58]"

definition F_CONFIRM :: pystr where \<comment> \<open>line 289: failure: verification button not found\<close>
  "F_CONFIRM = [0x274C, 0x20, 0xC778, 0xC99D, 0x20, 0xD655, 0xC778, 0x20, 0xBC84, 0xD2BC, 0x20,
     0xD0D0, 0xC9C0, 0x20, 0xC2E4, 0xD328]"

definition SEP_SLASH :: pystr where \<comment> \<open>line 294: separator of order number and order date\<close>
  "SEP_SLASH = asc '' / ''"

definition LOG_10_PRE :: pystr where \<comment> \<open>line 295: step 10 log,
     before the order information\<close>
  "LOG_10_PRE = [0x20, 0x20, 0x5B, 0x31, 0x30, 0x2F, 0x31, 0x33, 0x5D, 0x20, 0xC8FC, 0xBB38,
     0xC815, 0xBCF4, 0x20, 0xC785, 0xB825, 0x3A, 0x20]"

definition F_ORDER :: pystr where \<comment> \<open>line 297: failure: order information input failed\<close>
  "F_ORDER = [0x274C, 0x20, 0xC8FC, 0xBB38, 0xC815, 0xBCF4, 0x20, 0xC785, 0xB825, 0x20, 0xC2E4,
     0xD328]"

definition LOG_11_PRE :: pystr where \<comment> \<open>line 300: step 11 log,
     before the category\<close>
  "LOG_11_PRE = [0x20, 0x20, 0x5B, 0x31, 0x31, 0x2F, 0x31, 0x33, 0x5D, 0x20, 0xC0AC, 0xC720,
     0x20, 0xCE74, 0xD14C, 0xACE0, 0xB9AC, 0x3A, 0x20, 0x27]"

definition QUOTE :: pystr where \<comment> \<open>line 300: closing quote\<close>
  "QUOTE = [0x27]"

definition F_CATEGORY_PRE :: pystr where \<comment> \<open>line 302: failure: reason category not found (before the category)\<close>
  "F_CATEGORY_PRE = [0x274C, 0x20, 0xC0AC, 0xC720, 0x20, 0xCE74, 0xD14C, 0xACE0, 0xB9AC, 0x20,
     0x27]"

definition F_CATEGORY_SUF :: pystr where \<comment> \<open>line 302: (after the category)\<close>
  "F_CATEGORY_SUF = [0x27, 0x20, 0xD0D0, 0xC9C0, 0x20, 0xC2E4, 0xD328]"

definition LOG_12 :: pystr where \<comment> \<open>line 306: step 12 log: writing the reason\<close>
  "LOG_12 = [0x20, 0x20, 0x5B, 0x31, 0x32, 0x2F, 0x31, 0x33, 0x5D, 0x20, 0xC0AC, 0xC720, 0x20,
     0xC791, 0xC131, 0x20, 0xC911, 0x2E, 0x2E, 0x2E]"

definition F_REASON :: pystr where \<comment> \<open>line 308: failure: reason input failed\<close>
  "F_REASON = [0x274C, 0x20, 0xC0AC, 0xC720, 0x20, 0xC785, 0xB825, 0x20, 0xC2E4, 0xD328]"

definition LOG_13 :: pystr where \<comment> \<open>line 311: step 13 log: final submission\<close>
  "LOG_13 = [0x20, 0x20, 0x5B, 0x31, 0x33, 0x2F, 0x31, 0x33, 0x5D, 0x20, 0xCD5C, 0xC885, 0x20,
     0xC811, 0xC218, 0x2E, 0x2E, 0x2E]"

definition B_SUBMIT :: pystr where \<comment> \<open>line 314: button: agree and submit\<close>
  "B_SUBMIT = [0xB3D9, 0xC758, 0xD558, 0xACE0, 0x20, 0xC811, 0xC218, 0xD558, 0xAE30]"

definition P_DONE :: pystr where \<comment> \<open>line 315: probe: the text 'submission complete'\<close>
  "P_DONE = [0x74, 0x65, 0x78, 0x74, 0x3D, 0xC811, 0xC218, 0xAC00, 0x20, 0xC644, 0xB8CC]"

definition F_SUBMIT :: pystr where \<comment> \<open>line 317: failure: agree-and-submit button not found\<close>
  "F_SUBMIT = [0x274C, 0x20, 0x27, 0xB3D9, 0xC758, 0xD558, 0xACE0, 0x20, 0xC811, 0xC218, 0xD558,
     0xAE30, 0x27, 0x20, 0xBC84, 0xD2BC, 0x20, 0xD0D0, 0xC9C0, 0x20, 0xC2E4, 0xD328]"

definition R_DONE :: pystr where \<comment> \<open>line 320: result: submission complete\<close>
  "R_DONE = [0x2705, 0x20, 0xC811, 0xC218, 0x20, 0xC644, 0xB8CC]"

definition F_TIMEOUT :: pystr where \<comment> \<open>line 323: failure: timeout\<close>
  "F_TIMEOUT = [0x274C, 0x20, 0xD0C0, 0xC784, 0xC544, 0xC6C3]"

definition F_ERROR_PRE :: pystr where \<comment> \<open>line 325: failure: error,
     before the exception text\<close>
  "F_ERROR_PRE = [0x274C, 0x20, 0xC624, 0xB958, 0x3A, 0x20]"

definition E_ALREADY_RUNNING :: pystr where \<comment> \<open>line 370: detail of the 409 response: already running\<close>
  "E_ALREADY_RUNNING = [0xC774, 0xBBF8, 0x20, 0xC2E4, 0xD589, 0x20, 0xC911, 0xC785, 0xB2C8, 0xB2E4]"

definition M_STARTED :: pystr where \<comment> \<open>line 374: response message: automation started\<close>
  "M_STARTED = [0xC790, 0xB3D9, 0xD654, 0xAC00, 0x20, 0xC2DC, 0xC791, 0xB418, 0xC5C8, 0xC2B5,
     0xB2C8, 0xB2E4]"

definition M_STOP_REQUESTED :: pystr where \<comment> \<open>line 381: log: stop requested,
     stopping after the current record\<close>
  "M_STOP_REQUESTED = [0x26D4, 0x20, 0xC911, 0xC9C0, 0x20, 0xC694, 0xCCAD, 0xB428, 0x2E, 0x20,
     0xD604, 0xC7AC, 0x20, 0xAC74, 0x20, 0xC644, 0xB8CC, 0x20, 0xD6C4, 0x20, 0xC911, 0xC9C0,
     0xD569, 0xB2C8, 0xB2E4, 0x2E]"

definition M_START :: pystr where \<comment> \<open>line 419: log: starting the automation\<close>
  "M_START = [0x1F680, 0x20, 0xC790, 0xB3D9, 0xD654, 0xB97C, 0x20, 0xC2DC, 0xC791, 0xD569,
     0xB2C8, 0xB2E4, 0x2E, 0x2E, 0x2E]"

definition M_NO_DATA :: pystr where \<comment> \<open>line 426: log: no data to process\<close>
  "M_NO_DATA = [0x26A0, 0xFE0F, 0x20, 0xCC98, 0xB9AC, 0xD560, 0x20, 0xB370, 0xC774, 0xD130,
     0xAC00, 0x20, 0xC5C6, 0xC2B5, 0xB2C8, 0xB2E4, 0x2E]"

definition M_TOTAL_PRE :: pystr where \<comment> \<open>line 444: log: total,
     before the count\<close>
  "M_TOTAL_PRE = [0x1F4CA, 0x20, 0xCD1D, 0x20]"

definition M_TOTAL_SUF :: pystr where \<comment> \<open>line 444: (after the count) records to process\<close>
  "M_TOTAL_SUF = [0xAC74, 0x20, 0xCC98, 0xB9AC, 0x20, 0xC608, 0xC815]"

definition M_STOPPED :: pystr where \<comment> \<open>line 463: log: stopped by the user\<close>
  "M_STOPPED = [0x26D4, 0x20, 0xC0AC, 0xC6A9, 0xC790, 0xC5D0, 0x20, 0xC758, 0xD574, 0x20, 0xC911,
     0xC9C0, 0xB418, 0xC5C8, 0xC2B5, 0xB2C8, 0xB2E4, 0x2E]"

definition M_REC_OPEN :: pystr where \<comment> \<open>line 473: record header,
     before the index\<close>
  "M_REC_OPEN = [0xA, 0x2501, 0x2501, 0x20, 0x5B]"

definition SLASH :: pystr where \<comment> \<open>line 473: separator\<close>
  "SLASH = asc ''/''"

definition M_REC_ROW :: pystr where \<comment> \<open>line 473: record header,
     before the row\<close>
  "M_REC_ROW = asc ''] Row ''"

definition M_REC_CLOSE :: pystr where \<comment> \<open>line 473: record header, end\<close>
  "M_REC_CLOSE = [0x20, 0x2501, 0x2501]"

definition M_COMPANY :: pystr where \<comment> \<open>line 474: record line: company name\<close>
  "M_COMPANY = [0x20, 0x20, 0xC5C5, 0xCCB4, 0xBA85, 0x3A, 0x20]"

definition M_STORE :: pystr where \<comment> \<open>line 474: record line: store id\<close>
  "M_STORE = [0x2C, 0x20, 0xC2A4, 0xD1A0, 0xC5B4, 0x49, 0x44, 0x3A, 0x20]"

definition M_ORDER :: pystr where \<comment> \<open>line 474: record line: order number\<close>
  "M_ORDER = [0x2C, 0x20, 0xC8FC, 0xBB38, 0xBC88, 0xD638, 0x3A, 0x20]"

definition N_STORE_ID :: pystr where \<comment> \<open>line 478: name of the field store id\<close>
  "N_STORE_ID = [0xC2A4, 0xD1A0, 0xC5B4, 0x49, 0x44]"

definition N_BUSINESS_NO :: pystr where \<comment> \<open>line 479: name of the field business number\<close>
  "N_BUSINESS_NO = [0xC0AC, 0xC5C5, 0xC790, 0xBC88, 0xD638]"

definition N_ORDER_NO :: pystr where \<comment> \<open>line 480: name of the field order number\<close>
  "N_ORDER_NO = [0xC8FC, 0xBB38, 0xBC88, 0xD638]"

definition M_SKIP_PRE :: pystr where \<comment> \<open>line 483: skip message,
     before the missing fields\<close>
  "M_SKIP_PRE = [0x23ED, 0x20, 0xC2A4, 0xD0B5, 0x20, 0x28, 0xB204, 0xB77D, 0x3A, 0x20]"

definition M_SKIP_SUF :: pystr where \<comment> \<open>line 483: skip message, end\<close>
  "M_SKIP_SUF = asc '')''"

definition COMMA_SP :: pystr where \<comment> \<open>line 483: separator of the missing fields\<close>
  "COMMA_SP = asc '', ''"

definition M_RETRY_PRE :: pystr where \<comment> \<open>line 497: retry notice,
     before the attempt number\<close>
  "M_RETRY_PRE = [0x20, 0x20, 0x1F501, 0x20, 0xC7AC, 0xC2DC, 0xB3C4, 0x20]"

definition DOTS :: pystr where \<comment> \<open>line 497: retry notice, end\<close>
  "DOTS = asc ''...''"

definition INDENT :: pystr where \<comment> \<open>line 507: indentation of the failure line\<close>
  "INDENT = asc ''  ''"

definition MARK_MISMATCH :: pystr where \<comment> \<open>line 508: the substring that classifies a failure as a mismatch\<close>
  "MARK_MISMATCH = [0xBD88, 0xC77C, 0xCE58]"

definition M_SUCCESS :: pystr where \<comment> \<open>line 513: log: submission complete\<close>
  "M_SUCCESS = [0x20, 0x20, 0x2705, 0x20, 0xC811, 0xC218, 0x20, 0xC644, 0xB8CC, 0x21]"

definition M_FINAL_FAIL_PRE :: pystr where \<comment> \<open>line 516: log: final failure,
     before the reason\<close>
  "M_FINAL_FAIL_PRE = [0x20, 0x20, 0x274C, 0x20, 0xCD5C, 0xC885, 0x20, 0xC2E4, 0xD328, 0x3A, 0x20]"

definition M_WRITE_FAIL_PRE :: pystr where \<comment> \<open>line 525: log: writing the result to the sheet failed, before the exception\<close>
  "M_WRITE_FAIL_PRE = [0x20, 0x20, 0x26A0, 0xFE0F, 0x20, 0xC2DC, 0xD2B8, 0x20, 0xACB0, 0xACFC,
     0x20, 0xAE30, 0xB85D, 0x20, 0xC2E4, 0xD328, 0x3A, 0x20]"

definition M_WAIT_PRE :: pystr where \<comment> \<open>line 532: pacing log,
     before the duration\<close>
  "M_WAIT_PRE = [0x20, 0x20, 0x23F3, 0x20]"

definition M_WAIT_SUF :: pystr where \<comment> \<open>line 532: pacing log: seconds of waiting\<close>
  "M_WAIT_SUF = [0xCD08, 0x20, 0xB300, 0xAE30, 0x2E, 0x2E, 0x2E]"

definition M_FATAL_PRE :: pystr where \<comment> \<open>line 538: log: fatal error,
     before the exception text\<close>
  "M_FATAL_PRE = [0x1F4A5, 0x20, 0xCE58, 0xBA85, 0xC801, 0x20, 0xC624, 0xB958, 0x3A, 0x20]"

definition BAR :: pystr where \<comment> \<open>line 541: the character repeated 40 times in the separator line\<close>
  "BAR = [0x2501]"

definition M_SUMMARY_PRE :: pystr where \<comment> \<open>line 542: summary,
     before the success count\<close>
  "M_SUMMARY_PRE = [0x1F4CA, 0x20, 0xCD5C, 0xC885, 0x20, 0xACB0, 0xACFC, 0x3A, 0x20, 0x2705, 0x20]"

definition M_SUMMARY_S :: pystr where \<comment> \<open>line 542: summary,
     after the success count\<close>
  "M_SUMMARY_S = [0xAC74, 0x20, 0xC131, 0xACF5, 0x2C, 0x20, 0x274C, 0x20]"

definition M_SUMMARY_F :: pystr where \<comment> \<open>line 542: summary,
     after the fail count\<close>
  "M_SUMMARY_F = [0xAC74, 0x20, 0xC2E4, 0xD328, 0x2C, 0x20, 0x23ED, 0x20]"

definition M_SUMMARY_K :: pystr where \<comment> \<open>line 542: summary,
     after the skip count\<close>
  "M_SUMMARY_K = [0xAC74, 0x20, 0xC2A4, 0xD0B5]"

section \<open>Records, configuration and the run state\<close>

text \<open>
  One dictionary of \<open>get_sheet_data\<close>. No record of the sheet has the key
  \<^verbatim>\<open>reason\<close>; the protocol reads it with \<^verbatim>\<open>item.get("reason", ...)\<close>, so it is optional here.
\<close>

record item =
  row :: nat
  no :: pystr
  company_name :: pystr
  store_id :: pystr
  business_number :: pystr
  order_number :: pystr
  order_date :: pystr
  status :: pystr
  timestamp :: pystr
  reason :: "pystr option"

type_synonym config = "pystr \<rightharpoonup> pystr"

record log_entry =
  time :: pystr
  message :: pystr
  level :: pystr

text \<open>The dictionary \<open>automation_state\<close> (lines 47-56).\<close>

record automation_state =
  is_running :: bool
  current_item :: nat
  total_items :: nat
  success :: nat
  fail :: nat
  skip :: nat
  logs :: "log_entry list"
  should_stop :: bool

section \<open>Reading the sheet: get_sheet_data\<close>

text \<open>
  What the sheet client returns for one spreadsheet: the rows of the worksheet named
  for the data when there is one (\<open>get_all_values\<close>, a list of rows of cell texts), the rows of
  the first worksheet, which is read when the named one is missing, and the rows of the
  settings worksheet or the exception that reading it raises.
\<close>

record spreadsheet =
  data_sheet :: "pystr list list option"
  first_sheet :: "pystr list list"
  config_sheet :: "exn + pystr list list"

definition data_rows :: "spreadsheet \<Rightarrow> pystr list list" where
  "data_rows sh = (case data_sheet sh of Some rs \<Rightarrow> rs | None \<Rightarrow> first_sheet sh)"

text \<open>\<^verbatim>\<open>r[k]\<close> on a list: IndexError out of range (the indices used are not negative).\<close>

definition cell :: "pystr list \<Rightarrow> nat \<Rightarrow> exn + pystr" where
  "cell r k = (if k < length r then Inr (r ! k) else Inl IndexError)"

text \<open>
  The dictionary built for one row (lines 117-127). The cells 0 to 5 are read without a
  check, so a row of fewer than six cells raises IndexError; the cells 6 and 7 are guarded.
\<close>

definition make_item :: "nat \<Rightarrow> pystr list \<Rightarrow> exn + item" where
  "make_item i r =
     (if length r < 6 then Inl IndexError
      else Inr \<lparr> row = i,
                 no = (if r ! 0 \<noteq> [] then r ! 0 else str_nat (i - 3)),
                 company_name = py_strip (r ! 1),
                 store_id = py_strip (r ! 2),
                 business_number = py_strip (r ! 3),
                 order_number = py_strip (r ! 4),
                 order_date = py_strip (r ! 5),
                 status = (if length r > 6 then py_strip (r ! 6) else []),
                 timestamp = (if length r > 7 then py_strip (r ! 7) else []),
                 reason = None \<rparr>)"

text \<open>
  The loop of lines 114-127 over \<open>enumerate(records[3:], start=4)\<close>: it stops at the first
  row whose third cell is the empty string, and an exception in a row is the result of the
  whole read.
\<close>

fun read_items :: "nat \<Rightarrow> pystr list list \<Rightarrow> exn + item list" where
  "read_items i [] = Inr []"
| "read_items i (r # rs) =
     (case cell r 2 of
        Inl e \<Rightarrow> Inl e
      | Inr c \<Rightarrow>
          if c = [] then Inr []
          else (case make_item i r of
                  Inl e \<Rightarrow> Inl e
                | Inr it \<Rightarrow>
                    (case read_items (Suc i) rs of
                       Inl e \<Rightarrow> Inl e
                     | Inr its \<Rightarrow> Inr (it # its))))"

text \<open>
  The loop of lines 134-136 over the settings rows. It runs inside
  \<^verbatim>\<open>try: ... except Exception: pass\<close>, so an IndexError ends it and the settings read so far
  are kept.
\<close>

fun read_config :: "config \<Rightarrow> pystr list list \<Rightarrow> config" where
  "read_config c [] = c"
| "read_config c (r # rs) =
     (case cell r 0 of
        Inl e \<Rightarrow> c
      | Inr k \<Rightarrow>
          if k = [] then read_config c rs
          else (case cell r 1 of
                  Inl e \<Rightarrow> c
                | Inr v \<Rightarrow>
                    if v = [] then read_config c rs
                    else read_config (c(py_strip k \<mapsto> py_strip v)) rs))"

definition get_sheet_data :: "spreadsheet \<Rightarrow> exn + item list \<times> config" where
  "get_sheet_data sh =
     (let records = data_rows sh in
      if length records < 4 then Inr ([], Map.empty)
      else (case read_items 4 (drop 3 records) of
              Inl e \<Rightarrow> Inl e
            | Inr items \<Rightarrow>
                Inr (items,
                     (case config_sheet sh of
                        Inl e \<Rightarrow> Map.empty
                      | Inr config_data \<Rightarrow> read_config Map.empty (drop 3 config_data)))))"

text \<open>The eligibility check of the run loop (lines 477-480): the names of the empty fields.\<close>

definition missing_fields :: "item \<Rightarrow> pystr list" where
  "missing_fields it =
     (if store_id it = [] then [N_STORE_ID] else []) @
     (if business_number it = [] then [N_BUSINESS_NO] else []) @
     (if order_number it = [] then [N_ORDER_NO] else [])"

definition skip_msg :: "pystr list \<Rightarrow> pystr" where
  "skip_msg missing = M_SKIP_PRE @ py_join COMMA_SP missing @ M_SKIP_SUF"

section \<open>The log buffer: add_log, lines 178-181\<close>

definition log_append :: "log_entry \<Rightarrow> log_entry list \<Rightarrow> log_entry list" where
  "log_append le ls =
     (let ls' = ls @ [le]
      in if length ls' > 200 then py_slice_from ls' (- 200) else ls')"

section \<open>The start request: start_automation\<close>

text \<open>
  The server as the start handler sees it: the run state and the tasks that
  \<^verbatim>\<open>asyncio.create_task\<close> has scheduled, which the event loop runs after the handler has
  returned.
\<close>

record RunRequest =
  req_spreadsheet_url :: pystr
  req_start_row :: int
  req_end_row :: int

record server =
  state :: automation_state
  tasks :: "RunRequest list"

datatype http_error = HTTPException nat pystr

definition start_automation ::
    "RunRequest \<Rightarrow> server \<Rightarrow> (http_error + bool \<times> pystr) \<times> server" where
  "start_automation req srv =
     (if is_running (state srv) then (Inl (HTTPException 409 E_ALREADY_RUNNING), srv)
      else (Inr (True, M_STARTED), srv\<lparr>tasks := tasks srv @ [req]\<rparr>))"


section \<open>The world of a run\<close>

text \<open>
  What a run does to the outside is kept as a trace of events: the messages handed to
  \<open>broadcast\<close> (the event name and the data), the sleeps, the writes to the sheet, and the
  actions on the browser page.
\<close>

datatype payload =
    PLog log_entry
  | PState automation_state
  | PProgress nat nat item
  | PComplete nat nat nat

datatype event =
    EvBroadcast pystr payload
  | EvSleep real
  | EvSheetWrite pystr nat pystr pystr "exn option"
  | EvLaunch bool
  | EvClose
  | EvGoto pystr
  | EvClick pystr
  | EvType pystr
  | EvProbe pystr

text \<open>
  The world: the run state, the trace, and a counter of the points at which the run has
  touched its surroundings. The surroundings answer by that counter.
\<close>

record world =
  st :: automation_state
  out :: "event list"
  tick :: nat

text \<open>
  The surroundings of a run, fixed for the run and unknown to it:
  \<^item> \<open>int_of_str\<close>, \<open>str_upper\<close>, \<open>fmt_1f\<close>: Python's \<^verbatim>\<open>int()\<close> on a string (\<open>Inl\<close> is the text of
    the ValueError), \<^verbatim>\<open>str.upper()\<close> and the format \<^verbatim>\<open>.1f\<close> of a float;
  \<^item> \<open>now_hms\<close>, \<open>now_ymd_hms\<close>: \<^verbatim>\<open>datetime.now()\<close> in the two formats the code uses;
  \<^item> \<open>uniform_0_2\<close>: the draw of \<^verbatim>\<open>random.uniform(0, 2)\<close>;
  \<^item> \<open>stop_request\<close>: whether the stop handler is served at a suspension point;
  \<^item> \<open>open_by_url\<close>: the sheet client on a spreadsheet address (lines 99-106), or the exception
    of the client or of the read;
  \<^item> \<open>update_cells\<close>: the exception, if any, of the two \<^verbatim>\<open>update_cell\<close> calls on a row;
  \<^item> \<open>no_display\<close>: the test of line 441 (a posix system without a display that is not macOS);
  \<^item> \<open>browser_open\<close>, \<open>browser_close\<close>: the exception, if any, of starting the browser with its
    context and page (lines 448-459) and of closing it (line 535);
  \<^item> \<open>page_goto\<close>, \<open>page_click\<close>, \<open>page_type\<close>, \<open>page_count\<close>: the page's answer to a navigation,
    to the helpers \<open>click_btn\<close> and \<open>type_msg\<close> (given the timeout in milliseconds), and to
    counting the matches of a locator.
\<close>

record env =
  int_of_str :: "pystr \<Rightarrow> pystr + int"
  str_upper :: "pystr \<Rightarrow> pystr"
  fmt_1f :: "real \<Rightarrow> pystr"
  now_hms :: "nat \<Rightarrow> pystr"
  now_ymd_hms :: "nat \<Rightarrow> pystr"
  uniform_0_2 :: "nat \<Rightarrow> real"
  stop_request :: "nat \<Rightarrow> bool"
  open_by_url :: "pystr \<Rightarrow> exn + spreadsheet"
  update_cells :: "nat \<Rightarrow> nat \<Rightarrow> exn option"
  no_display :: bool
  browser_open :: "exn option"
  browser_close :: "exn option"
  page_goto :: "nat \<Rightarrow> pystr \<Rightarrow> exn option"
  page_click :: "nat \<Rightarrow> int \<Rightarrow> pystr \<Rightarrow> bool"
  page_type :: "nat \<Rightarrow> int \<Rightarrow> pystr \<Rightarrow> bool"
  page_count :: "nat \<Rightarrow> pystr \<Rightarrow> exn + nat"

text \<open>
  A piece of the program: from a world to a result, an exception (\<open>Inl\<close>) or a value, and
  the world it leaves.
\<close>

type_synonym 'a prog = "world \<Rightarrow> (exn + 'a) \<times> world"

definition ret :: "'a \<Rightarrow> 'a prog" where
  "ret x w = (Inr x, w)"

definition raise :: "exn \<Rightarrow> 'a prog" where
  "raise x w = (Inl x, w)"

definition bind :: "'a prog \<Rightarrow> ('a \<Rightarrow> 'b prog) \<Rightarrow> 'b prog" where
  "bind m f w = (case m w of (Inl x, w') \<Rightarrow> (Inl x, w') | (Inr a, w') \<Rightarrow> f a w')"

definition seq :: "'a prog \<Rightarrow> 'b prog \<Rightarrow> 'b prog" where
  "seq m n = bind m (\<lambda>_. n)"

text \<open>\<^verbatim>\<open>try: m except Exception as x: h(x)\<close> and \<^verbatim>\<open>try: m finally: fin\<close>.\<close>

definition try_except :: "'a prog \<Rightarrow> (exn \<Rightarrow> 'a prog) \<Rightarrow> 'a prog" where
  "try_except m h w = (case m w of (Inl x, w') \<Rightarrow> h x w' | (Inr a, w') \<Rightarrow> (Inr a, w'))"

definition try_finally :: "'a prog \<Rightarrow> unit prog \<Rightarrow> 'a prog" where
  "try_finally m fin w =
     (case m w of (r, w') \<Rightarrow>
        (case fin w' of (Inl x, w'') \<Rightarrow> (Inl x, w'') | (Inr u, w'') \<Rightarrow> (r, w'')))"

definition update_state :: "(automation_state \<Rightarrow> automation_state) \<Rightarrow> unit prog" where
  "update_state f w = (Inr (), w\<lparr>st := f (st w)\<rparr>)"

definition emit :: "event \<Rightarrow> world \<Rightarrow> world" where
  "emit ev w = w\<lparr>out := out w @ [ev]\<rparr>"

subsection \<open>The stop request and the suspension points\<close>

text \<open>
  \<open>stop_automation\<close> (lines 378-382) sets the stop flag and logs. It runs on the same event
  loop as the run, so it can only run while the run is suspended in an \<^verbatim>\<open>await\<close>; \<open>suspend\<close>
  is such a point. At most one stop request is served at one point.
\<close>

definition stop_entry :: "pystr \<Rightarrow> log_entry" where
  "stop_entry t = \<lparr>time = t, message = M_STOP_REQUESTED, level = LV_WARN\<rparr>"

definition stop_automation :: "env \<Rightarrow> world \<Rightarrow> world" where
  "stop_automation e w =
     emit (EvBroadcast EV_LOG (PLog (stop_entry (now_hms e (tick w)))))
       (w\<lparr>st := (st w)\<lparr>should_stop := True,
                         logs := log_append (stop_entry (now_hms e (tick w))) (logs (st w))\<rparr>\<rparr>)"

definition suspend :: "env \<Rightarrow> world \<Rightarrow> world" where
  "suspend e w =
     (if stop_request e (tick w) then (stop_automation e w)\<lparr>tick := Suc (tick w)\<rparr>
      else w\<lparr>tick := Suc (tick w)\<rparr>)"

subsection \<open>broadcast, add_log and the other actions\<close>

text \<open>
  \<open>broadcast\<close> (lines 158-168) sends one message to every connected client; a client whose
  send fails is dropped and the failure is swallowed, so the call never raises. The trace
  keeps the message, not the deliveries.
\<close>

definition broadcast :: "env \<Rightarrow> pystr \<Rightarrow> payload \<Rightarrow> unit prog" where
  "broadcast e name data w = (Inr (), suspend e (emit (EvBroadcast name data) w))"

definition broadcast_state :: "env \<Rightarrow> unit prog" where
  "broadcast_state e w = broadcast e EV_STATE (PState (st w)) w"

definition add_log :: "env \<Rightarrow> pystr \<Rightarrow> pystr \<Rightarrow> unit prog" where
  "add_log e msg lvl w =
     (let log_entry = \<lparr>time = now_hms e (tick w), message = msg, level = lvl\<rparr>
      in broadcast e EV_LOG (PLog log_entry)
           (w\<lparr>st := (st w)\<lparr>logs := log_append log_entry (logs (st w))\<rparr>\<rparr>))"

definition sleep :: "env \<Rightarrow> real \<Rightarrow> unit prog" where
  "sleep e secs w = (Inr (), suspend e (emit (EvSleep secs) w))"

text \<open>
  \<open>update_sheet_result\<close> (lines 143-152), called with the time of the call. The sheet client
  is synchronous: the call is no suspension point.
\<close>

definition update_sheet_result :: "env \<Rightarrow> pystr \<Rightarrow> nat \<Rightarrow> pystr \<Rightarrow> unit prog" where
  "update_sheet_result e url r status_text w =
     (let outcome = update_cells e (tick w) r;
          w' = emit (EvSheetWrite url r status_text (now_ymd_hms e (tick w)) outcome) w
      in case outcome of Some x \<Rightarrow> (Inl x, w') | None \<Rightarrow> (Inr (), w'))"

definition launch :: "env \<Rightarrow> bool \<Rightarrow> unit prog" where
  "launch e headless w =
     (let w' = suspend e (emit (EvLaunch headless) w)
      in case browser_open e of Some x \<Rightarrow> (Inl x, w') | None \<Rightarrow> (Inr (), w'))"

definition close_browser :: "env \<Rightarrow> unit prog" where
  "close_browser e w =
     (let w' = suspend e (emit EvClose w)
      in case browser_close e of Some x \<Rightarrow> (Inl x, w') | None \<Rightarrow> (Inr (), w'))"

definition goto :: "env \<Rightarrow> pystr \<Rightarrow> unit prog" where
  "goto e url w =
     (let w' = suspend e (emit (EvGoto url) w)
      in case page_goto e (tick w) url of Some x \<Rightarrow> (Inl x, w') | None \<Rightarrow> (Inr (), w'))"

definition locator_count :: "env \<Rightarrow> pystr \<Rightarrow> nat prog" where
  "locator_count e sel w = (page_count e (tick w) sel, suspend e (emit (EvProbe sel) w))"

text \<open>
  The helpers \<open>click_btn\<close> (lines 192-207) and \<open>type_msg\<close> (lines 209-232) catch every
  exception and answer with a boolean. Their waits and pauses are inside the one
  interaction that the trace keeps.
\<close>

definition click_btn :: "env \<Rightarrow> int \<Rightarrow> pystr \<Rightarrow> bool prog" where
  "click_btn e timeout label w =
     (Inr (page_click e (tick w) timeout label), suspend e (emit (EvClick label) w))"

definition type_msg :: "env \<Rightarrow> int \<Rightarrow> pystr \<Rightarrow> bool prog" where
  "type_msg e timeout txt w =
     (Inr (page_type e (tick w) timeout txt), suspend e (emit (EvType txt) w))"

section \<open>Configuration\<close>

text \<open>\<^verbatim>\<open>config.get(key, default)\<close>, and \<^verbatim>\<open>int(config.get(key, default))\<close> for an integer default.\<close>

definition cfg_get :: "config \<Rightarrow> pystr \<Rightarrow> pystr \<Rightarrow> pystr" where
  "cfg_get c k d = (case c k of None \<Rightarrow> d | Some v \<Rightarrow> v)"

definition cfg_int :: "env \<Rightarrow> config \<Rightarrow> pystr \<Rightarrow> int \<Rightarrow> exn + int" where
  "cfg_int e c k d =
     (case c k of
        None \<Rightarrow> Inr d
      | Some v \<Rightarrow> (case int_of_str e v of Inl m \<Rightarrow> Inl (ValueError m) | Inr i \<Rightarrow> Inr i))"

text \<open>Lines 437-442: whether the browser runs without a window.\<close>

definition cfg_headless :: "env \<Rightarrow> config \<Rightarrow> bool" where
  "cfg_headless e c =
     (let headless_val = str_upper e (cfg_get c K_HEADLESS D_HEADLESS);
          headless = headless_val \<notin> set [V_TRUE, V_ONE, V_YE, V_Y]
      in if no_display e then True else headless)"

section \<open>The submission protocol: process_single_item\<close>

text \<open>A step that ends the protocol with a failure when its action answers False.\<close>

definition or_fail :: "bool prog \<Rightarrow> bool \<times> pystr \<Rightarrow> (bool \<times> pystr) prog \<Rightarrow> (bool \<times> pystr) prog" where
  "or_fail m r k = bind m (\<lambda>ok. if ok then k else ret r)"

text \<open>The body of the \<^verbatim>\<open>try\<close> of lines 234-320.\<close>

definition protocol :: "env \<Rightarrow> item \<Rightarrow> config \<Rightarrow> int \<Rightarrow> (bool \<times> pystr) prog" where
  "protocol e it c timeout =
     (let chatbot_url = cfg_get c K_CHATBOT_URL D_CHATBOT_URL;
          reason_category = cfg_get c K_REASON_CATEGORY D_REASON_CATEGORY;
          delete_comment = cfg_get c K_DELETE_COMMENT D_DELETE_COMMENT;
          order_info = (if order_date it \<noteq> [] then order_number it @ SEP_SLASH @ order_date it
                        else order_number it);
          default_reason = cfg_get c K_DEFAULT_REASON D_DEFAULT_REASON;
          reason_text = (case reason it of None \<Rightarrow> default_reason | Some r \<Rightarrow> r)
      in
      seq (add_log e LOG_1 LV_INFO) (
      seq (goto e chatbot_url) (
      seq (sleep e 3) (
      seq (add_log e LOG_2 LV_INFO) (
      or_fail (bind (click_btn e timeout B_MAIN)
                 (\<lambda>ok. if ok then ret True else click_btn e timeout B_MAIN_SHORT))
        (False, F_MAIN) (
      seq (add_log e LOG_3 LV_INFO) (
      or_fail (click_btn e timeout B_TYPE) (False, F_TYPE_PRE @ B_TYPE @ F_TYPE_SUF) (
      seq (add_log e LOG_4 LV_INFO) (
      or_fail (click_btn e timeout B_SELF) (False, F_SELF) (
      seq (add_log e LOG_5 LV_INFO) (
      or_fail (click_btn e timeout B_SIMPLE) (False, F_SIMPLE) (
      seq (add_log e LOG_6 LV_INFO) (
      or_fail (click_btn e timeout B_CONTINUE) (False, F_CONTINUE) (
      seq (add_log e (LOG_7_PRE @ store_id it) LV_INFO) (
      or_fail (type_msg e timeout (store_id it)) (False, F_STORE_ID) (
      seq (add_log e (LOG_8_PRE @ business_number it) LV_INFO) (
      or_fail (type_msg e timeout (business_number it)) (False, F_BUSINESS_NO) (
      seq (add_log e LOG_9 LV_INFO) (
      bind (click_btn e timeout B_CONFIRM) (\<lambda>ok.
        if \<not> ok then
          bind (locator_count e P_MISMATCH) (\<lambda>mismatch.
            if mismatch > 0 then ret (False, F_MISMATCH) else ret (False, F_CONFIRM))
        else
      seq (add_log e (LOG_10_PRE @ order_info) LV_INFO) (
      or_fail (type_msg e timeout order_info) (False, F_ORDER) (
      seq (add_log e (LOG_11_PRE @ reason_category @ QUOTE) LV_INFO) (
      or_fail (click_btn e timeout reason_category)
        (False, F_CATEGORY_PRE @ reason_category @ F_CATEGORY_SUF) (
      seq (add_log e LOG_12 LV_INFO) (
      or_fail (type_msg e timeout reason_text) (False, F_REASON) (
      seq (add_log e LOG_13 LV_INFO) (
      seq (click_btn e timeout delete_comment) (
      seq (sleep e 1) (
      bind (click_btn e timeout B_SUBMIT) (\<lambda>ok.
        if \<not> ok then
          bind (locator_count e P_DONE) (\<lambda>completed.
            if completed = 0 then ret (False, F_SUBMIT)
            else seq (sleep e 2) (ret (True, R_DONE)))
        else seq (sleep e 2) (ret (True, R_DONE))))))))))))))))))))))))))))))))"

text \<open>
  \<open>process_single_item\<close> (lines 185-325). The timeout is read before the \<^verbatim>\<open>try\<close>, so a
  ValueError of \<^verbatim>\<open>int()\<close> leaves the function; inside the \<^verbatim>\<open>try\<close> a Playwright timeout and
  any other exception become failures with a reason.
\<close>

definition process_single_item :: "env \<Rightarrow> item \<Rightarrow> config \<Rightarrow> (bool \<times> pystr) prog" where
  "process_single_item e it c =
     (case cfg_int e c K_TIMEOUT 10 of
        Inl x \<Rightarrow> raise x
      | Inr t \<Rightarrow>
          try_except (protocol e it c (t * 1000))
            (\<lambda>x. case x of
                   PlaywrightTimeout m \<Rightarrow> ret (False, F_TIMEOUT)
                 | _ \<Rightarrow> ret (False, F_ERROR_PRE @ take 80 (str_exn x))))"

section \<open>The run engine: run_automation\<close>

text \<open>
  The attempt loop of lines 495-509, \<^verbatim>\<open>for attempt in range(1, max_retry + 1)\<close>: the fourth
  argument from the end counts the attempts that are left.
\<close>

fun attempts ::
    "env \<Rightarrow> item \<Rightarrow> config \<Rightarrow> int \<Rightarrow> int \<Rightarrow> nat \<Rightarrow> int \<Rightarrow> pystr \<Rightarrow> (bool \<times> pystr) prog" where
  "attempts e it c delay max_retry 0 attempt result_msg = ret (False, result_msg)"
| "attempts e it c delay max_retry (Suc left) attempt result_msg =
     seq (if attempt > 1
          then seq (add_log e (M_RETRY_PRE @ str_int attempt @ SLASH @ str_int max_retry @ DOTS)
                      LV_INFO)
                   (sleep e (of_int delay))
          else ret ())
       (bind (process_single_item e it c) (\<lambda>(ok, msg).
          if ok then ret (True, msg)
          else seq (add_log e (INDENT @ msg) LV_ERROR)
                 (if py_in MARK_MISMATCH msg then ret (False, msg)
                  else attempts e it c delay max_retry left (attempt + 1) msg)))"

text \<open>Lines 530-533: the pause between two records.\<close>

definition pace :: "env \<Rightarrow> int \<Rightarrow> nat \<Rightarrow> nat \<Rightarrow> unit prog" where
  "pace e delay n i w =
     (if int i < int n - 1 \<and> \<not> should_stop (st w)
      then (let wait = of_int delay + uniform_0_2 e (tick w)
            in seq (add_log e (M_WAIT_PRE @ fmt_1f e wait @ M_WAIT_SUF) LV_INFO)
                   (sleep e wait) w)
      else ret () w)"

text \<open>
  One pass of the loop body, lines 466-533, for the record \<open>it\<close> at index \<open>i\<close> of \<open>n\<close>. The
  branch of a record with a missing field ends in \<^verbatim>\<open>continue\<close>.
\<close>

definition iteration ::
    "env \<Rightarrow> pystr \<Rightarrow> config \<Rightarrow> int \<Rightarrow> int \<Rightarrow> nat \<Rightarrow> nat \<Rightarrow> item \<Rightarrow> unit prog" where
  "iteration e url c delay max_retry n i it =
     seq (update_state (\<lambda>s. s\<lparr>current_item := i + 1\<rparr>)) (
     seq (broadcast e EV_PROGRESS (PProgress (i + 1) n it)) (
     seq (add_log e (M_REC_OPEN @ str_nat (i + 1) @ SLASH @ str_nat n @ M_REC_ROW @
                     str_nat (row it) @ M_REC_CLOSE) LV_INFO) (
     seq (add_log e (M_COMPANY @ company_name it @ M_STORE @ store_id it @ M_ORDER @
                     order_number it) LV_INFO) (
     if missing_fields it \<noteq> [] then
       seq (add_log e (skip_msg (missing_fields it)) LV_WARN) (
       seq (update_state (\<lambda>s. s\<lparr>skip := skip s + 1\<rparr>)) (
       seq (update_sheet_result e url (row it) (skip_msg (missing_fields it)))
           (broadcast_state e)))
     else
       bind (attempts e it c delay max_retry (nat max_retry) 1 []) (\<lambda>(ok, result_msg).
       seq (if ok
            then seq (update_state (\<lambda>s. s\<lparr>success := success s + 1\<rparr>))
                     (add_log e M_SUCCESS LV_SUCCESS)
            else seq (update_state (\<lambda>s. s\<lparr>fail := fail s + 1\<rparr>))
                     (add_log e (M_FINAL_FAIL_PRE @ result_msg) LV_ERROR)) (
       seq (try_except (update_sheet_result e url (row it) result_msg)
              (\<lambda>x. add_log e (M_WRITE_FAIL_PRE @ str_exn x) LV_WARN)) (
       seq (broadcast_state e)
           (pace e delay n i))))))))"

text \<open>The loop of lines 461-533 over \<open>enumerate(items)\<close>, from index \<open>i\<close> on.\<close>

fun record_loop ::
    "env \<Rightarrow> pystr \<Rightarrow> config \<Rightarrow> int \<Rightarrow> int \<Rightarrow> nat \<Rightarrow> nat \<Rightarrow> item list \<Rightarrow> unit prog" where
  "record_loop e url c delay max_retry n i [] = ret ()"
| "record_loop e url c delay max_retry n i (it # rest) =
     (\<lambda>w. if should_stop (st w) then add_log e M_STOPPED LV_WARN w
          else seq (iteration e url c delay max_retry n i it)
                   (record_loop e url c delay max_retry n (Suc i) rest) w)"

text \<open>The body of the \<^verbatim>\<open>try\<close> of \<open>run_automation\<close>, lines 423-535.\<close>

definition run_body :: "env \<Rightarrow> pystr \<Rightarrow> int \<Rightarrow> int \<Rightarrow> unit prog" where
  "run_body e url start_row end_row =
     (case open_by_url e url of
        Inl x \<Rightarrow> raise x
      | Inr sh \<Rightarrow>
         (case get_sheet_data sh of
            Inl x \<Rightarrow> raise x
          | Inr (all_items, c) \<Rightarrow>
              if all_items = [] then add_log e M_NO_DATA LV_WARN
              else
                (let start_idx = start_row - 1;
                     end_idx = (if end_row > 0 then end_row else int (length all_items));
                     items = py_slice all_items start_idx end_idx
                 in
                 seq (update_state (\<lambda>s. s\<lparr>total_items := length items\<rparr>)) (
                 case cfg_int e c K_DELAY 3 of
                   Inl x \<Rightarrow> raise x
                 | Inr delay \<Rightarrow>
                    (case cfg_int e c K_MAX_RETRY 3 of
                       Inl x \<Rightarrow> raise x
                     | Inr max_retry \<Rightarrow>
                        seq (add_log e (M_TOTAL_PRE @ str_nat (length items) @ M_TOTAL_SUF)
                               LV_INFO) (
                        seq (broadcast_state e) (
                        seq (launch e (cfg_headless e c)) (
                        seq (record_loop e url c delay max_retry (length items) 0 items)
                            (close_browser e)))))))))"

definition summary_line :: "automation_state \<Rightarrow> pystr" where
  "summary_line s =
     M_SUMMARY_PRE @ str_nat (success s) @ M_SUMMARY_S @ str_nat (fail s) @ M_SUMMARY_F @
     str_nat (skip s) @ M_SUMMARY_K"

text \<open>The \<^verbatim>\<open>finally\<close> block, lines 540-550.\<close>

definition run_finally :: "env \<Rightarrow> unit prog" where
  "run_finally e =
     seq (update_state (\<lambda>s. s\<lparr>is_running := False\<rparr>)) (
     seq (add_log e (concat (replicate 40 BAR)) LV_INFO) (
     seq (\<lambda>w. add_log e (summary_line (st w)) LV_INFO w) (
     seq (broadcast_state e)
         (\<lambda>w. broadcast e EV_COMPLETE
                 (PComplete (success (st w)) (fail (st w)) (skip (st w))) w))))"

text \<open>\<open>run_automation\<close>, lines 406-550.\<close>

definition run_automation :: "env \<Rightarrow> pystr \<Rightarrow> int \<Rightarrow> int \<Rightarrow> unit prog" where
  "run_automation e url start_row end_row =
     seq (update_state (\<lambda>s. s\<lparr>is_running := True, should_stop := False, success := 0,
                               fail := 0, skip := 0, logs := []\<rparr>)) (
     seq (add_log e M_START LV_INFO) (
     seq (broadcast_state e)
         (try_finally
            (try_except (run_body e url start_row end_row)
               (\<lambda>x. add_log e (M_FATAL_PRE @ str_exn x) LV_ERROR))
            (run_finally e))))"


section \<open>Sample surroundings\<close>

text \<open>
  Concrete surroundings on which the definitions can be run. \<open>sample_int\<close> is \<^verbatim>\<open>int()\<close> on
  the strings that are an optional sign and ASCII digits between white space, and a
  ValueError on every other string; \<open>sample_upper\<close> is \<^verbatim>\<open>upper()\<close> on ASCII letters;
  \<open>sample_fmt_1f\<close> rounds to one decimal.
\<close>

definition is_ascii_digit :: "nat \<Rightarrow> bool" where
  "is_ascii_digit ch \<longleftrightarrow> 48 \<le> ch \<and> ch \<le> 57"

definition digits_value :: "pystr \<Rightarrow> nat" where
  "digits_value ds = foldl (\<lambda>acc ch. 10 * acc + (ch - 48)) 0 ds"

definition sample_int :: "pystr \<Rightarrow> pystr + int" where
  "sample_int s =
     (let t = py_strip s;
          negative = (t \<noteq> [] \<and> hd t = 45);
          ds = (if t \<noteq> [] \<and> (hd t = 45 \<or> hd t = 43) then tl t else t)
      in if ds \<noteq> [] \<and> list_all is_ascii_digit ds
         then Inr (if negative then - int (digits_value ds) else int (digits_value ds))
         else Inl (asc ''invalid literal for int() with base 10: '' @ [39] @ s @ [39]))"

definition sample_upper :: "pystr \<Rightarrow> pystr" where
  "sample_upper s = map (\<lambda>ch. if 97 \<le> ch \<and> ch \<le> 122 then ch - 32 else ch) s"

definition sample_fmt_1f :: "real \<Rightarrow> pystr" where
  "sample_fmt_1f r =
     (let tenths = \<lfloor>r * 10 + 1 / 2\<rfloor>
      in (if tenths < 0 then [45] else []) @ str_nat (nat \<bar>tenths\<bar> div 10) @ [46] @
         str_nat (nat \<bar>tenths\<bar> mod 10))"

text \<open>
  A sheet of three heading rows and the given data rows, with no settings worksheet, and
  surroundings in which every action succeeds, nobody asks to stop, and the clock stands.
\<close>

definition sheet_of :: "pystr list list \<Rightarrow> (exn + pystr list list) \<Rightarrow> spreadsheet" where
  "sheet_of rows settings =
     \<lparr>data_sheet = Some (replicate 8 [] # replicate 8 [] # replicate 8 [] # rows),
      first_sheet = [],
      config_sheet = settings\<rparr>"

definition calm_env :: "spreadsheet \<Rightarrow> env" where
  "calm_env sh =
     \<lparr>int_of_str = sample_int, str_upper = sample_upper, fmt_1f = sample_fmt_1f,
      now_hms = (\<lambda>t. asc ''12:00:00''), now_ymd_hms = (\<lambda>t. asc ''2024-01-01 12:00:00''),
      uniform_0_2 = (\<lambda>t. 1 / 2), stop_request = (\<lambda>t. False),
      open_by_url = (\<lambda>url. Inr sh), update_cells = (\<lambda>t r. None),
      no_display = True, browser_open = None, browser_close = None,
      page_goto = (\<lambda>t url. None), page_click = (\<lambda>t ms label. True),
      page_type = (\<lambda>t ms txt. True), page_count = (\<lambda>t sel. Inr 0)\<rparr>"

text \<open>The run state and the world when the process starts (lines 47-56).\<close>

definition initial_state :: automation_state where
  "initial_state =
     \<lparr>is_running = False, current_item = 0, total_items = 0, success = 0, fail = 0,
      skip = 0, logs = [], should_stop = False\<rparr>"

definition initial_world :: world where
  "initial_world = \<lparr>st = initial_state, out = [], tick = 0\<rparr>"

text \<open>Rows of the data worksheet used in the examples.\<close>

definition good_row :: "pystr list" where
  "good_row = [asc ''1'', asc ''Shop'', asc ''S-100'', asc ''123-45-67890'', asc ''ORD-1'',
               asc ''2024-01-01'', [], []]"

definition blank_id_row :: "pystr list" where
  "blank_id_row = [asc ''2'', asc ''Shop'', asc '' '', asc ''123-45-67890'', asc ''ORD-2'',
                   asc ''2024-01-02'', [], []]"

definition no_business_row :: "pystr list" where
  "no_business_row = [asc ''3'', asc ''Shop'', asc ''S-300'', [], asc ''ORD-3'',
                      asc ''2024-01-03'', [], []]"


text \<open>The record that \<open>get_sheet_data\<close> makes of \<open>good_row\<close> in the first data row.\<close>

definition good_item :: item where
  "good_item =
     \<lparr>row = 4, no = asc ''1'', company_name = asc ''Shop'', store_id = asc ''S-100'',
      business_number = asc ''123-45-67890'', order_number = asc ''ORD-1'',
      order_date = asc ''2024-01-01'', status = [], timestamp = [], reason = None\<rparr>"

section \<open>Running the definitions\<close>

text \<open>
  The equations that run a program on a concrete world. The continuation of a \<open>bind\<close> is
  left alone until its first part has run.
\<close>

lemmas sample_defs = sheet_of_def good_row_def blank_id_row_def no_business_row_def asc_def
  calm_env_def initial_world_def initial_state_def sample_int_def sample_upper_def
  is_ascii_digit_def digits_value_def

lemmas prog_defs = ret_def raise_def bind_def seq_def try_except_def try_finally_def
  update_state_def emit_def suspend_def stop_automation_def stop_entry_def broadcast_def
  broadcast_state_def add_log_def sleep_def update_sheet_result_def launch_def
  close_browser_def goto_def locator_count_def click_btn_def type_msg_def cfg_get_def
  cfg_int_def cfg_headless_def or_fail_def log_append_def py_slice_from_def py_bound_def

lemmas sheet_defs = get_sheet_data_def data_rows_def cell_def make_item_def py_strip_def
  py_isspace_def missing_fields_def

lemma bind_lazy: "m = m' \<Longrightarrow> bind m f = bind m' f"
  by simp

lemma seq_lazy: "m = m' \<Longrightarrow> seq m n = seq m' n"
  by simp

lemma try_except_lazy: "m = m' \<Longrightarrow> try_except m h = try_except m' h"
  by simp

lemma try_finally_lazy: "m = m' \<Longrightarrow> try_finally m fin = try_finally m' fin"
  by simp

lemma or_fail_lazy: "m = m' \<Longrightarrow> or_fail m r k = or_fail m' r k"
  by simp

lemmas lazy = bind_lazy seq_lazy try_except_lazy try_finally_lazy or_fail_lazy

section \<open>The log buffer\<close>

lemma log_append_eq:
  "length ls \<le> 200 \<Longrightarrow> log_append le ls = drop (length ls + 1 - 200) (ls @ [le])"
proof -
  have "nat (int (length ls) - 199) = length ls - 199" by arith
  then show ?thesis
    by (simp add: log_append_def py_slice_from_def py_bound_def Let_def)
qed

lemma log_append_length: "length ls \<le> 200 \<Longrightarrow> length (log_append le ls) \<le> 200"
  by (simp add: log_append_eq)

lemma log_appends_gen:
  "length ls \<le> 200 \<Longrightarrow>
   foldl (\<lambda>b le. log_append le b) ls es = drop (length ls + length es - 200) (ls @ es)"
proof (induction es arbitrary: ls)
  case Nil
  then show ?case by simp
next
  case (Cons e es)
  have len: "length (log_append e ls) \<le> 200"
    using Cons.prems by (rule log_append_length)
  show ?case
  proof (cases "length ls = 200")
    case True
    then have la: "log_append e ls = drop 1 ls @ [e]"
      using Cons.prems by (simp add: log_append_eq)
    have "foldl (\<lambda>b le. log_append le b) (log_append e ls) es
            = drop (length es) (drop 1 ls @ [e] @ es)"
      using Cons.IH [OF len] True by (simp add: la)
    also have "\<dots> = drop (length es) (drop 1 (ls @ e # es))"
      using True by simp
    also have "\<dots> = drop (length ls + length (e # es) - 200) (ls @ e # es)"
      using True by (simp del: drop_append)
    finally show ?thesis by simp
  next
    case False
    then have lt: "length ls < 200" using Cons.prems by simp
    then have la: "log_append e ls = ls @ [e]"
      by (simp add: log_append_eq)
    show ?thesis
      using Cons.IH [OF len] lt by (simp add: la)
  qed
qed

text \<open>
  C5. The buffer starts empty (when the process starts, and again at every start of a run)
  and changes only by \<open>log_append\<close>. After any sequence \<open>es\<close> of appends it holds at most 200
  entries, and they are the last 200 of \<open>es\<close> (all of \<open>es\<close> when there are fewer) in the order
  of the appends: the oldest entries are the ones dropped.
\<close>

theorem log_buffer_last_200:
  "length (foldl (\<lambda>b le. log_append le b) [] es) \<le> 200 \<and>
   foldl (\<lambda>b le. log_append le b) [] es = drop (length es - 200) es"
  using log_appends_gen [of "[]" es] by simp

section \<open>The start request\<close>

text \<open>
  C6. A start request that finds the running flag set is answered with the HTTP error 409
  and leaves the server as it was: the run state and the scheduled tasks. A start request
  that finds the flag clear is answered with success at once; the run state is untouched
  and the run is scheduled as a task after the ones already scheduled.
\<close>

theorem start_automation_conflict:
  "(is_running (state srv) \<longrightarrow>
      start_automation req srv = (Inl (HTTPException 409 E_ALREADY_RUNNING), srv)) \<and>
   (\<not> is_running (state srv) \<longrightarrow>
      fst (start_automation req srv) = Inr (True, M_STARTED) \<and>
      state (snd (start_automation req srv)) = state srv \<and>
      tasks (snd (start_automation req srv)) = tasks srv @ [req])"
  by (simp add: start_automation_def)

theorem start_automation_conflict_witness:
  "is_running (state \<lparr>state = initial_state\<lparr>is_running := True\<rparr>, tasks = []\<rparr>) \<and>
   start_automation \<lparr>req_spreadsheet_url = [], req_start_row = 1, req_end_row = 0\<rparr>
       \<lparr>state = initial_state\<lparr>is_running := True\<rparr>, tasks = []\<rparr>
     = (Inl (HTTPException 409 E_ALREADY_RUNNING),
        \<lparr>state = initial_state\<lparr>is_running := True\<rparr>, tasks = []\<rparr>) \<and>
   \<not> is_running (state \<lparr>state = initial_state, tasks = []\<rparr>) \<and>
   fst (start_automation \<lparr>req_spreadsheet_url = [], req_start_row = 1, req_end_row = 0\<rparr>
          \<lparr>state = initial_state, tasks = []\<rparr>) = Inr (True, M_STARTED) \<and>
   tasks (snd (start_automation \<lparr>req_spreadsheet_url = [], req_start_row = 1, req_end_row = 0\<rparr>
          \<lparr>state = initial_state, tasks = []\<rparr>))
     = [\<lparr>req_spreadsheet_url = [], req_start_row = 1, req_end_row = 0\<rparr>]"
  using start_automation_conflict
          [of "\<lparr>state = initial_state\<lparr>is_running := True\<rparr>, tasks = []\<rparr>"
              "\<lparr>req_spreadsheet_url = [], req_start_row = 1, req_end_row = 0\<rparr>"]
        start_automation_conflict
          [of "\<lparr>state = initial_state, tasks = []\<rparr>"
              "\<lparr>req_spreadsheet_url = [], req_start_row = 1, req_end_row = 0\<rparr>"]
  by (simp add: initial_state_def)

section \<open>The records read from the sheet\<close>

lemma read_items_rows:
  "read_items i rs = Inr its \<Longrightarrow> map row its = [i ..< i + length its]"
proof (induction rs arbitrary: i its)
  case Nil
  then show ?case by simp
next
  case (Cons r rs)
  then show ?case
    by (auto simp: make_item_def upt_rec [of i] split: sum.splits if_splits)
qed

lemma read_items_cells:
  "read_items i rs = Inr its \<Longrightarrow> k < length its \<Longrightarrow>
   k < length rs \<and> 2 < length (rs ! k) \<and> rs ! k ! 2 \<noteq> [] \<and>
   store_id (its ! k) = py_strip (rs ! k ! 2)"
proof (induction rs arbitrary: i its k)
  case Nil
  then show ?case by simp
next
  case (Cons r rs)
  then show ?case
    by (cases k) (auto simp: make_item_def cell_def split: sum.splits if_splits)
qed

lemma read_items_stop:
  "read_items i rs = Inr its \<Longrightarrow> length its < length rs \<Longrightarrow>
   cell (rs ! length its) 2 = Inr []"
proof (induction rs arbitrary: i its)
  case Nil
  then show ?case by simp
next
  case (Cons r rs)
  then show ?case
    by (auto simp: make_item_def split: sum.splits if_splits)
qed

lemma missing_store_id: "N_STORE_ID \<in> set (missing_fields it) \<longleftrightarrow> store_id it = []"
  by (simp add: missing_fields_def N_STORE_ID_def N_BUSINESS_NO_def N_ORDER_NO_def)

lemma py_strip_empty: "py_strip s = [] \<longleftrightarrow> (\<forall>ch \<in> set s. py_isspace ch)"
proof
  assume "py_strip s = []"
  then have all: "\<forall>ch \<in> set (dropWhile py_isspace s). py_isspace ch"
    by (simp add: py_strip_def)
  have "dropWhile py_isspace s = []"
  proof (rule ccontr)
    assume ne: "dropWhile py_isspace s \<noteq> []"
    then have "\<not> py_isspace (hd (dropWhile py_isspace s))" by (rule hd_dropWhile)
    moreover have "hd (dropWhile py_isspace s) \<in> set (dropWhile py_isspace s)"
      using ne by simp
    ultimately show False using all by blast
  qed
  then show "\<forall>ch \<in> set s. py_isspace ch" by simp
next
  assume "\<forall>ch \<in> set s. py_isspace ch"
  then have d: "dropWhile py_isspace s = []" by simp
  show "py_strip s = []" unfolding py_strip_def d by simp
qed

text \<open>
  C10, as the code has it. The records that \<open>get_sheet_data\<close> returns carry the consecutive
  row addresses 4, 5, ...; the record at position \<open>k\<close> comes from the row \<open>3 + k\<close> of the
  worksheet, whose store-ID cell is not the empty string, and its store identifier is that
  cell stripped of surrounding white space. So the eligibility check names the store
  identifier as missing exactly for a record whose cell holds white space only. The read
  stops at the first row whose store-ID cell is the empty string.
\<close>

theorem get_sheet_data_store_id:
  assumes "get_sheet_data sh = Inr (items, c)"
  shows "map row items = [4 ..< 4 + length items] \<and>
         (\<forall>k < length items.
            3 + k < length (data_rows sh) \<and>
            2 < length (data_rows sh ! (3 + k)) \<and>
            data_rows sh ! (3 + k) ! 2 \<noteq> [] \<and>
            store_id (items ! k) = py_strip (data_rows sh ! (3 + k) ! 2) \<and>
            (N_STORE_ID \<in> set (missing_fields (items ! k)) \<longleftrightarrow>
               (\<forall>ch \<in> set (data_rows sh ! (3 + k) ! 2). py_isspace ch))) \<and>
         (3 + length items < length (data_rows sh) \<longrightarrow>
            cell (data_rows sh ! (3 + length items)) 2 = Inr [])"
proof (cases "length (data_rows sh) < 4")
  case True
  then have "items = []"
    using assms by (simp add: get_sheet_data_def Let_def)
  moreover have "length (data_rows sh) \<le> 3" using True by simp
  ultimately show ?thesis by simp
next
  case False
  then have ri: "read_items 4 (drop 3 (data_rows sh)) = Inr items"
    using assms by (simp add: get_sheet_data_def Let_def split: sum.splits)
  have rows: "map row items = [4 ..< 4 + length items]"
    using ri by (rule read_items_rows)
  have cells: "3 + k < length (data_rows sh) \<and>
            2 < length (data_rows sh ! (3 + k)) \<and>
            data_rows sh ! (3 + k) ! 2 \<noteq> [] \<and>
            store_id (items ! k) = py_strip (data_rows sh ! (3 + k) ! 2) \<and>
            (N_STORE_ID \<in> set (missing_fields (items ! k)) \<longleftrightarrow>
               (\<forall>ch \<in> set (data_rows sh ! (3 + k) ! 2). py_isspace ch))"
    if "k < length items" for k
  proof -
    have c: "k < length (drop 3 (data_rows sh)) \<and> 2 < length (drop 3 (data_rows sh) ! k) \<and>
          drop 3 (data_rows sh) ! k ! 2 \<noteq> [] \<and>
          store_id (items ! k) = py_strip (drop 3 (data_rows sh) ! k ! 2)"
      using ri that by (rule read_items_cells)
    then have "k < length (data_rows sh) - 3" by simp
    then have k3: "3 + k < length (data_rows sh)" by arith
    then have nth: "drop 3 (data_rows sh) ! k = data_rows sh ! (3 + k)" by simp
    show ?thesis
      using c k3 by (simp add: nth missing_store_id py_strip_empty)
  qed
  have stop: "cell (data_rows sh ! (3 + length items)) 2 = Inr []"
    if "3 + length items < length (data_rows sh)"
  proof -
    have "length items < length (drop 3 (data_rows sh))" using that by simp
    with ri have "cell (drop 3 (data_rows sh) ! length items) 2 = Inr []"
      by (rule read_items_stop)
    then show ?thesis using that by simp
  qed
  show ?thesis using rows cells stop by blast
qed

theorem get_sheet_data_store_id_witness:
  "get_sheet_data (sheet_of [good_row, replicate 8 []] (Inl (Fault []))) =
     Inr ([good_item], Map.empty) \<and>
   map row [good_item] = [4 ..< 4 + length [good_item]] \<and>
   store_id ([good_item] ! 0) =
     py_strip (data_rows (sheet_of [good_row, replicate 8 []] (Inl (Fault []))) ! (3 + 0) ! 2) \<and>
   cell (data_rows (sheet_of [good_row, replicate 8 []] (Inl (Fault []))) !
           (3 + length [good_item])) 2 = Inr []"
proof -
  have h: "get_sheet_data (sheet_of [good_row, replicate 8 []] (Inl (Fault []))) =
     Inr ([good_item], Map.empty)"
    by (simp add: sheet_defs sample_defs good_item_def)
  note t = get_sheet_data_store_id [OF h]
  have len: "3 + length [good_item]
          < length (data_rows (sheet_of [good_row, replicate 8 []] (Inl (Fault []))))"
    by (simp add: data_rows_def sheet_of_def)
  have k: "(0::nat) < length [good_item]" by simp
  note rows = t [THEN conjunct1]
  note cells = t [THEN conjunct2, THEN conjunct1, rule_format, OF k]
  note stop = t [THEN conjunct2, THEN conjunct2, rule_format, OF len]
  show ?thesis
    using h rows cells [THEN conjunct2, THEN conjunct2, THEN conjunct2, THEN conjunct1] stop
    by blast
qed

text \<open>
  The claim C10 as it was stated fails: a row whose store-ID cell holds one blank is read,
  and its record has the empty store identifier, which the eligibility check then names.
\<close>

theorem blank_store_id_counterexample:
  "(case get_sheet_data (sheet_of [blank_id_row] (Inl (Fault []))) of
      Inl x \<Rightarrow> False
    | Inr (items, c) \<Rightarrow>
        map row items = [4] \<and> map store_id items = [[]] \<and>
        map missing_fields items = [[N_STORE_ID]])"
  by (simp add: sheet_defs sample_defs)


end
